theory Spec2Isabelle
  imports Main "HOL-Library.Word" "HOL-Library.Mapping"
begin

unbundle bit_operations_syntax

section \<open>Common data\<close>

type_synonym u8 = "8 word"
type_synonym u16 = "16 word"
type_synonym u32 = "32 word"
type_synonym u64 = "64 word"

text \<open>
  Undefined behaviour and aborts of the C++ code are values of the model: a result is
  \<open>error + 'a\<close>, with \<open>Inl\<close> the failure.
\<close>

datatype error =
    InvalidIteratorDeref  \<comment> \<open>\<open>*it\<close> on an end or rend iterator of a std::set\<close>
  | NullPointerDeref      \<comment> \<open>a method call through a null pointer\<close>
  | IndexOutOfRange       \<comment> \<open>\<open>v[0]\<close> on an empty vector, a write past a buffer\<close>
  | AssertionFailed       \<comment> \<open>MS_ASSERT aborts the worker\<close>
  | UseAfterFree          \<comment> \<open>a method call on a deleted object\<close>

datatype Kind = AUDIO | VIDEO | DEPTH

text \<open>
  Modelled from the spec: the enum \<open>RtpEncodingParameters::Profile\<close> is not among the
  sources (the code names only \<open>NONE\<close>). The specification gives its enumerators and their
  order, NONE < DEFAULT < LOW < MEDIUM < HIGH; a \<open>std::set<Profile>\<close> iterates in that
  order, so that \<open>crbegin()\<close> is at the best profile, as the code's comment says.
\<close>

datatype Profile = NONE | DEFAULT | LOW | MEDIUM | HIGH

fun profileRank :: "Profile \<Rightarrow> nat" where
  "profileRank NONE = 0"
| "profileRank DEFAULT = 1"
| "profileRank LOW = 2"
| "profileRank MEDIUM = 3"
| "profileRank HIGH = 4"

instantiation Profile :: linorder
begin

definition less_eq_Profile :: "Profile \<Rightarrow> Profile \<Rightarrow> bool" where
  "less_eq_Profile a b = (profileRank a \<le> profileRank b)"

definition less_Profile :: "Profile \<Rightarrow> Profile \<Rightarrow> bool" where
  "less_Profile a b = (profileRank a < profileRank b)"

instance
proof
  fix x y z :: Profile
  show "(x < y) = (x \<le> y \<and> \<not> y \<le> x)"
    by (auto simp: less_eq_Profile_def less_Profile_def)
  show "x \<le> x"
    by (simp add: less_eq_Profile_def)
  show "x \<le> y \<Longrightarrow> y \<le> z \<Longrightarrow> x \<le> z"
    by (simp add: less_eq_Profile_def)
  show "x \<le> y \<Longrightarrow> y \<le> x \<Longrightarrow> x = y"
    by (cases x; cases y) (simp_all add: less_eq_Profile_def)
  show "x \<le> y \<or> y \<le> x"
    by (auto simp: less_eq_Profile_def)
qed

end

text \<open>
  Modelled from the spec: the table \<open>RtpEncodingParameters::profile2String\<close> is not among
  the sources; scenario S3 of the specification gives the lower-case names.
\<close>

fun profile2String :: "Profile \<Rightarrow> string" where
  "profile2String NONE = ''none''"
| "profile2String DEFAULT = ''default''"
| "profile2String LOW = ''low''"
| "profile2String MEDIUM = ''medium''"
| "profile2String HIGH = ''high''"

text \<open>The header fields of an RtpPacket that the routing core reads and rewrites.\<close>

record RtpPacket =
  ssrc :: u32
  sequenceNumber :: u16
  timestamp :: u32
  payloadType :: u8
  packetSize :: nat

record RtpEncodingParameters =
  encodingSsrc :: u32

record RtpParameters =
  encodings :: "RtpEncodingParameters list"

text \<open>
  Modelled from the spec: \<open>RtpDataCounter\<close> is not among the sources. The specification
  has the Consumer update its transmitted counter with each packet it sends: a packet
  and a byte count, and \<open>Update\<close> counts one packet.
\<close>

record RtpDataCounter =
  packets :: nat
  bytes :: nat

definition Update :: "RtpDataCounter \<Rightarrow> RtpPacket \<Rightarrow> RtpDataCounter" where
  "Update counter packet =
     counter\<lparr>packets := packets counter + 1, bytes := bytes counter + packetSize packet\<rparr>"

text \<open>
  \<open>RtpStreamSend\<close> is not among the sources. Its state is a type parameter \<open>'s\<close>, and the
  two methods the Consumer calls are parameters: \<open>ReceivePacket\<close> answers whether the
  stream takes the packet, \<open>ClearRetransmissionBuffer\<close> empties the ring. Neither writes
  the packet's header.
\<close>

record 's RtpStreamSendOps =
  ReceivePacket :: "'s \<Rightarrow> RtpPacket \<Rightarrow> bool \<times> 's"
  ClearRetransmissionBuffer :: "'s \<Rightarrow> 's"

text \<open>What a call makes visible outside the object it runs on.\<close>

datatype Effect =
    Emit u32 string "(string \<times> string) list"  \<comment> \<open>\<open>notifier->Emit(targetId, event, data)\<close>\<close>
  | OnConsumerFullFrameRequired nat              \<comment> \<open>the callback, on one listener\<close>

section \<open>Consumer\<close>

record 's Consumer =
  consumerId :: u32
  kind :: Kind
  listeners :: "nat list"
  transport :: "nat option"
  rtpParameters :: RtpParameters
  rtpStream :: "'s option"
  supportedCodecPayloadTypes :: "u8 set"
  paused :: bool
  sourcePaused :: bool
  preferredProfile :: Profile
  effectiveProfile :: Profile
  profiles :: "Profile set"
  syncRequired :: bool
  seqNum :: u16
  rtpTimestamp :: u32
  lastRecvSeqNum :: u16
  lastRecvRtpTimestamp :: u32
  transmittedCounter :: RtpDataCounter

text \<open>
  Modelled from the spec: \<open>IsEnabled\<close> and \<open>IsPaused\<close> are inline members of the header,
  which is not among the sources. A Consumer is Enabled when a transport is bound, and
  paused when either flag is set.
\<close>

definition IsEnabled :: "'s Consumer \<Rightarrow> bool" where
  "IsEnabled c = (transport c \<noteq> None)"

definition IsPaused :: "'s Consumer \<Rightarrow> bool" where
  "IsPaused c = (paused c \<or> sourcePaused c)"

subsection \<open>Profiles\<close>

text \<open>
  The two iterator reads of \<open>std::set\<close> that \<open>RecalculateEffectiveProfile\<close> makes:
  \<open>*crbegin()\<close> is the greatest element, \<open>*lower_bound(k)\<close> the first element not less
  than \<open>k\<close>. Each is \<open>None\<close> where the iterator is rend or end.
\<close>

definition crbegin :: "'a::linorder set \<Rightarrow> 'a option" where
  "crbegin S = (if S = {} then None else Some (Max S))"

definition lower_bound :: "'a::linorder set \<Rightarrow> 'a \<Rightarrow> 'a option" where
  "lower_bound S k =
     (if Set.filter (\<lambda>x. k \<le> x) S = {} then None else Some (Min (Set.filter (\<lambda>x. k \<le> x) S)))"

definition RequestFullFrame :: "'s Consumer \<Rightarrow> Effect list" where
  "RequestFullFrame c =
     (if \<not> IsEnabled c then []
      else if kind c = AUDIO \<or> IsPaused c then []
      else map OnConsumerFullFrameRequired (listeners c))"

definition RecalculateEffectiveProfile ::
  "'s RtpStreamSendOps \<Rightarrow> 's Consumer \<Rightarrow> error + ('s Consumer \<times> Effect list)" where
  "RecalculateEffectiveProfile ops c =
     (case (if preferredProfile c = NONE then crbegin (profiles c)
            else lower_bound (profiles c) (preferredProfile c)) of
        None \<Rightarrow> Inl InvalidIteratorDeref
      | Some newProfile \<Rightarrow>
          if newProfile = effectiveProfile c then Inr (c, [])
          else
            let c1 = c\<lparr>effectiveProfile := newProfile\<rparr>;
                notification =
                  Emit (consumerId c1) ''effectiveprofilechange''
                    [(''profile'', profile2String (effectiveProfile c1))]
            in if IsEnabled c1 \<and> \<not> IsPaused c1 then
                 (case rtpStream c1 of
                    None \<Rightarrow> Inl NullPointerDeref
                  | Some s \<Rightarrow>
                      let c2 = c1\<lparr>rtpStream := Some (ClearRetransmissionBuffer ops s)\<rparr>
                      in Inr (c2\<lparr>syncRequired := True\<rparr>, notification # RequestFullFrame c2))
               else Inr (c1\<lparr>syncRequired := True\<rparr>, [notification]))"

definition AddProfile ::
  "'s RtpStreamSendOps \<Rightarrow> 's Consumer \<Rightarrow> Profile \<Rightarrow> error + ('s Consumer \<times> Effect list)" where
  "AddProfile ops c profile =
     (let c1 = (if profiles c = {NONE} then c\<lparr>profiles := {}\<rparr> else c);
          c2 = c1\<lparr>profiles := insert profile (profiles c1)\<rparr>
      in RecalculateEffectiveProfile ops c2)"

definition RemoveProfile ::
  "'s RtpStreamSendOps \<Rightarrow> 's Consumer \<Rightarrow> Profile \<Rightarrow> error + ('s Consumer \<times> Effect list)" where
  "RemoveProfile ops c profile =
     RecalculateEffectiveProfile ops (c\<lparr>profiles := profiles c - {profile}\<rparr>)"

definition SetPreferredProfile ::
  "'s RtpStreamSendOps \<Rightarrow> 's Consumer \<Rightarrow> Profile \<Rightarrow> error + ('s Consumer \<times> Effect list)" where
  "SetPreferredProfile ops c profile =
     (if preferredProfile c = profile then Inr (c, [])
      else RecalculateEffectiveProfile ops (c\<lparr>preferredProfile := profile\<rparr>))"

subsection \<open>Forwarding a packet\<close>

text \<open>
  \<open>SendRtpPacket\<close> returns the Consumer after the call, the packet object after the call
  (it is the caller's, and is handed to the next Consumer), and the packet given to
  \<open>transport->SendRtpPacket\<close>, if any. \<open>time\<close> is what \<open>DepLibUV::GetTime()\<close> returns.
\<close>

definition SendRtpPacket ::
  "'s RtpStreamSendOps \<Rightarrow> 's Consumer \<Rightarrow> RtpPacket \<Rightarrow> Profile \<Rightarrow> u64 \<Rightarrow>
     error + ('s Consumer \<times> RtpPacket \<times> RtpPacket option)" where
  "SendRtpPacket ops c packet profile time =
     (if \<not> IsEnabled c then Inr (c, packet, None)
      else if IsPaused c then Inr (c, packet, None)
      else if payloadType packet \<notin> supportedCodecPayloadTypes c then Inr (c, packet, None)
      else if profile \<noteq> effectiveProfile c then Inr (c, packet, None)
      else
        let c1 =
              (if syncRequired c then
                 let c' = c\<lparr>seqNum := seqNum c + 1\<rparr>;
                     now = (ucast time :: u32);
                     c'' = (if now > rtpTimestamp c' then c'\<lparr>rtpTimestamp := now\<rparr> else c')
                 in c''\<lparr>syncRequired := False\<rparr>
               else
                 c\<lparr>seqNum := seqNum c + (sequenceNumber packet - lastRecvSeqNum c),
                   rtpTimestamp := rtpTimestamp c + (timestamp packet - lastRecvRtpTimestamp c)\<rparr>);
            c2 = c1\<lparr>lastRecvSeqNum := sequenceNumber packet,
                    lastRecvRtpTimestamp := timestamp packet\<rparr>;
            savedSsrc = ssrc packet
        in case encodings (rtpParameters c2) of
             [] \<Rightarrow> Inl IndexOutOfRange
           | encoding # _ \<Rightarrow>
               let rewritten = packet\<lparr>ssrc := encodingSsrc encoding,
                                      sequenceNumber := seqNum c2,
                                      timestamp := rtpTimestamp c2\<rparr>
               in case rtpStream c2 of
                    None \<Rightarrow> Inl NullPointerDeref
                  | Some s \<Rightarrow>
                      let (accepted, s') = ReceivePacket ops s rewritten;
                          c3 = c2\<lparr>rtpStream := Some s'\<rparr>;
                          c4 = (if accepted
                                then c3\<lparr>transmittedCounter := Update (transmittedCounter c3) rewritten\<rparr>
                                else c3);
                          restored = rewritten\<lparr>ssrc := savedSsrc,
                                               sequenceNumber := lastRecvSeqNum c4,
                                               timestamp := lastRecvRtpTimestamp c4\<rparr>
                      in Inr (c4, restored, if accepted then Some rewritten else None))"













section \<open>VP8 payload descriptor\<close>

text \<open>
  The fields of \<open>VP8::PayloadDescriptor\<close>. The one-bit fields are booleans; the fields the
  source calls \<open>i\<close>, \<open>l\<close>, \<open>t\<close>, \<open>k\<close> and \<open>y\<close> are written \<open>i_bit\<close>, \<open>l_bit\<close>, \<open>t_bit\<close>,
  \<open>k_bit\<close> and \<open>y_bit\<close>.
\<close>

record PayloadDescriptor =
  extended :: bool
  nonReference :: bool
  start :: bool
  partitionIndex :: u8
  i_bit :: bool
  l_bit :: bool
  t_bit :: bool
  k_bit :: bool
  pictureId :: u16
  tl0PictureIndex :: u8
  tlIndex :: u8
  y_bit :: bool
  keyIndex :: u8
  isKeyFrame :: bool
  hasPictureId :: bool
  hasOneBytePictureId :: bool
  hasTwoBytesPictureId :: bool
  hasTl0PictureIndex :: bool
  hasTlIndex :: bool

definition newPayloadDescriptor :: PayloadDescriptor where
  "newPayloadDescriptor =
     \<lparr>extended = False, nonReference = False, start = False, partitionIndex = 0,
      i_bit = False, l_bit = False, t_bit = False, k_bit = False,
      pictureId = 0, tl0PictureIndex = 0, tlIndex = 0, y_bit = False, keyIndex = 0,
      isKeyFrame = False, hasPictureId = False, hasOneBytePictureId = False,
      hasTwoBytesPictureId = False, hasTl0PictureIndex = False, hasTlIndex = False\<rparr>"

text \<open>\<open>(byte >> n) & 0x01\<close>, stored into a one-bit field.\<close>

definition bitFlag :: "u8 \<Rightarrow> nat \<Rightarrow> bool" where
  "bitFlag byte n = (drop_bit n byte AND 1 \<noteq> 0)"

text \<open>
  \<open>VP8::Parse\<close> reads \<open>data[0 .. len)\<close>; the buffer is the list \<open>data\<close> and \<open>len\<close> its length.
  The three optional parts of the descriptor are the three blocks of the source, each
  moving \<open>offset\<close> on and filling its fields, or giving up (\<open>nullptr\<close>) when the buffer
  is too short.
\<close>

definition ParsePictureId ::
  "u8 list \<Rightarrow> nat \<times> PayloadDescriptor \<Rightarrow> (nat \<times> PayloadDescriptor) option" where
  "ParsePictureId data st =
     (let (offset, pd) = st in
      if i_bit pd then
        let offset = offset + 1 in
        if length data < offset + 1 then None
        else
          let byte = data ! offset in
          if bitFlag byte 7 then
            let offset = offset + 1 in
            if length data < offset + 1 then None
            else Some (offset,
                   pd\<lparr>hasTwoBytesPictureId := True,
                      pictureId := push_bit 8 (ucast (byte AND 0x7F)) + ucast (data ! offset),
                      hasPictureId := True\<rparr>)
          else Some (offset,
                 pd\<lparr>hasOneBytePictureId := True,
                    pictureId := ucast (byte AND 0x7F),
                    hasPictureId := True\<rparr>)
      else Some (offset, pd))"

definition ParseTl0PictureIndex ::
  "u8 list \<Rightarrow> nat \<times> PayloadDescriptor \<Rightarrow> (nat \<times> PayloadDescriptor) option" where
  "ParseTl0PictureIndex data st =
     (let (offset, pd) = st in
      if l_bit pd then
        let offset = offset + 1 in
        if length data < offset + 1 then None
        else Some (offset, pd\<lparr>hasTl0PictureIndex := True, tl0PictureIndex := data ! offset\<rparr>)
      else Some (offset, pd))"

definition ParseTlIndex ::
  "u8 list \<Rightarrow> nat \<times> PayloadDescriptor \<Rightarrow> (nat \<times> PayloadDescriptor) option" where
  "ParseTlIndex data st =
     (let (offset, pd) = st in
      if t_bit pd \<or> k_bit pd then
        let offset = offset + 1 in
        if length data < offset + 1 then None
        else
          let byte = data ! offset in
          Some (offset,
            pd\<lparr>hasTlIndex := True,
               tlIndex := drop_bit 6 byte AND 0x03,
               y_bit := bitFlag byte 5,
               keyIndex := byte AND 0x1F\<rparr>)
      else Some (offset, pd))"

definition Parse :: "u8 list \<Rightarrow> PayloadDescriptor option" where
  "Parse data =
     (if length data < 1 then None
      else
        let byte = data ! 0;
            pd = newPayloadDescriptor\<lparr>extended := bitFlag byte 7,
                                       nonReference := bitFlag byte 5,
                                       start := bitFlag byte 4,
                                       partitionIndex := byte AND 0x07\<rparr>
        in if \<not> extended pd then None
           else if length data < 2 then None
           else
             let byte = data ! 1;
                 pd = pd\<lparr>i_bit := bitFlag byte 7, l_bit := bitFlag byte 6,
                         t_bit := bitFlag byte 5, k_bit := bitFlag byte 4\<rparr>
             in case ParsePictureId data (1, pd) of
                  None \<Rightarrow> None
                | Some st1 \<Rightarrow>
                    (case ParseTl0PictureIndex data st1 of
                       None \<Rightarrow> None
                     | Some st2 \<Rightarrow>
                         (case ParseTlIndex data st2 of
                            None \<Rightarrow> None
                          | Some (offset, pd) \<Rightarrow>
                              let offset = offset + 1 in
                              if length data \<ge> offset + 1 \<and> start pd \<and> partitionIndex pd = 0
                                 \<and> (data ! offset) AND 0x01 = 0
                              then Some (pd\<lparr>isKeyFrame := True\<rparr>)
                              else Some pd)))"

text \<open>
  \<open>Encode\<close> gets the buffer without its length. A write past the end of the list is an
  error of the model.
\<close>

definition writeByte :: "u8 list \<Rightarrow> nat \<Rightarrow> u8 \<Rightarrow> error + u8 list" where
  "writeByte data pos v = (if pos < length data then Inr (data[pos := v]) else Inl IndexOutOfRange)"

definition EncodePictureId ::
  "PayloadDescriptor \<Rightarrow> u8 list \<Rightarrow> nat \<Rightarrow> u16 \<Rightarrow> error + (u8 list \<times> nat)" where
  "EncodePictureId pd data pos newPictureId =
     (if hasTwoBytesPictureId pd then
        (case writeByte data pos (ucast (drop_bit 8 newPictureId)) of
           Inl e \<Rightarrow> Inl e
         | Inr data1 \<Rightarrow>
             (case writeByte data1 (pos + 1) (ucast newPictureId) of
                Inl e \<Rightarrow> Inl e
              | Inr data2 \<Rightarrow> Inr (data2[pos := data2 ! pos OR 0x80], pos + 2)))
      else if hasOneBytePictureId pd then
        (case writeByte data pos (ucast newPictureId) of
           Inl e \<Rightarrow> Inl e
         | Inr data1 \<Rightarrow> Inr (data1, pos + 1))
      else Inr (data, pos))"

definition Encode :: "PayloadDescriptor \<Rightarrow> u8 list \<Rightarrow> u16 \<Rightarrow> u8 \<Rightarrow> error + u8 list" where
  "Encode pd data newPictureId newTl0PictureIndex =
     (if \<not> extended pd then Inr data
      else
        case (if i_bit pd then EncodePictureId pd data 2 newPictureId else Inr (data, 2)) of
          Inl e \<Rightarrow> Inl e
        | Inr (data1, pos) \<Rightarrow>
            if l_bit pd then writeByte data1 pos newTl0PictureIndex else Inr data1)"

definition Restore :: "PayloadDescriptor \<Rightarrow> u8 list \<Rightarrow> error + u8 list" where
  "Restore pd data = Encode pd data (pictureId pd) (tl0PictureIndex pd)"


subsection \<open>Rewriting pictureId and tl0PictureIndex\<close>

text \<open>
  \<open>SeqManager<T>\<close> is not among the sources. Its state is a type parameter \<open>'m\<close> and its
  members are parameters: \<open>Input\<close> answers whether the value is kept, the value it maps
  to, and the manager after the call.
\<close>

record ('m, 'w) SeqManagerOps =
  Sync :: "'m \<Rightarrow> 'w \<Rightarrow> 'm"
  Drop :: "'m \<Rightarrow> 'w \<Rightarrow> 'm"
  Input :: "'m \<Rightarrow> 'w \<Rightarrow> bool \<times> 'w \<times> 'm"
  GetMaxInput :: "'m \<Rightarrow> 'w"
  IsSeqHigherThan :: "'w \<Rightarrow> 'w \<Rightarrow> bool"

text \<open>
  \<open>VP8::EncodingContext\<close>: the two managers, the flag the source calls \<open>syncRequired\<close>
  (\<open>contextSyncRequired\<close> here, the Consumer has a field of that name), and the temporal
  layers, which are signed.
\<close>

record ('p, 'q) EncodingContext =
  contextSyncRequired :: bool
  pictureIdManager :: 'p
  tl0PictureIndexManager :: 'q
  currentTemporalLayer :: int
  targetTemporalLayer :: int

text \<open>The first two steps of \<open>Process\<close>: the sync of both managers, and the key frame.\<close>

definition SyncManagers ::
  "('p, u16) SeqManagerOps \<Rightarrow> ('q, u8) SeqManagerOps \<Rightarrow> PayloadDescriptor \<Rightarrow>
     ('p, 'q) EncodingContext \<Rightarrow> ('p, 'q) EncodingContext" where
  "SyncManagers pops tops pd context =
     (if contextSyncRequired context \<and> hasPictureId pd \<and> hasTl0PictureIndex pd then
        context\<lparr>pictureIdManager := Sync pops (pictureIdManager context) (pictureId pd - 1),
                tl0PictureIndexManager :=
                  Sync tops (tl0PictureIndexManager context) (tl0PictureIndex pd - 1),
                contextSyncRequired := False\<rparr>
      else context)"

definition UpdateOnKeyFrame ::
  "PayloadDescriptor \<Rightarrow> ('p, 'q) EncodingContext \<Rightarrow> ('p, 'q) EncodingContext" where
  "UpdateOnKeyFrame pd context =
     (if isKeyFrame pd then context\<lparr>currentTemporalLayer := targetTemporalLayer context\<rparr>
      else context)"

definition DropBoth ::
  "('p, u16) SeqManagerOps \<Rightarrow> ('q, u8) SeqManagerOps \<Rightarrow> PayloadDescriptor \<Rightarrow>
     ('p, 'q) EncodingContext \<Rightarrow> ('p, 'q) EncodingContext" where
  "DropBoth pops tops pd context =
     context\<lparr>pictureIdManager := Drop pops (pictureIdManager context) (pictureId pd),
             tl0PictureIndexManager :=
               Drop tops (tl0PictureIndexManager context) (tl0PictureIndex pd)\<rparr>"

text \<open>
  The part of \<open>Process\<close> after the temporal-layer check: both values go through \<open>Input\<close>
  (the second only when the first was kept), the current temporal layer is fixed, and the
  mapped values are written into the buffer. The locals \<open>pictureId\<close> and \<open>tl0PictureIndex\<close>
  of the source are \<open>newPictureId\<close> and \<open>newTl0PictureIndex\<close>; they are read only where
  \<open>Input\<close> has set them, and start at 0 here.
\<close>

definition InputBoth ::
  "('p, u16) SeqManagerOps \<Rightarrow> ('q, u8) SeqManagerOps \<Rightarrow> PayloadDescriptor \<Rightarrow>
     ('p, 'q) EncodingContext \<Rightarrow> u8 list \<Rightarrow> error + (bool \<times> ('p, 'q) EncodingContext \<times> u8 list)" where
  "InputBoth pops tops pd context data =
     (let (keptP, newPictureId, context1) =
            (if hasPictureId pd then
               let (kept, out, m) = Input pops (pictureIdManager context) (pictureId pd)
               in (kept, out, context\<lparr>pictureIdManager := m\<rparr>)
             else (True, 0, context))
      in if \<not> keptP then Inr (False, context1, data)
         else
           let (keptT, newTl0PictureIndex, context2) =
                 (if hasTl0PictureIndex pd then
                    let (kept, out, m) =
                          Input tops (tl0PictureIndexManager context1) (tl0PictureIndex pd)
                    in (kept, out, context1\<lparr>tl0PictureIndexManager := m\<rparr>)
                  else (True, 0, context1))
           in if \<not> keptT then Inr (False, context2, data)
              else
                let context3 =
                      (if uint (tlIndex pd) > currentTemporalLayer context2
                       then context2\<lparr>currentTemporalLayer := uint (tlIndex pd)\<rparr>
                       else context2);
                    context4 =
                      (if currentTemporalLayer context3 > targetTemporalLayer context3
                       then context3\<lparr>currentTemporalLayer := targetTemporalLayer context3\<rparr>
                       else context3)
                in if hasPictureId pd \<and> hasTl0PictureIndex pd then
                     (case Encode pd data newPictureId newTl0PictureIndex of
                        Inl e \<Rightarrow> Inl e
                      | Inr data' \<Rightarrow> Inr (True, context4, data'))
                   else Inr (True, context4, data))"

definition Process ::
  "('p, u16) SeqManagerOps \<Rightarrow> ('q, u8) SeqManagerOps \<Rightarrow> PayloadDescriptor \<Rightarrow>
     ('p, 'q) EncodingContext \<Rightarrow> u8 list \<Rightarrow> error + (bool \<times> ('p, 'q) EncodingContext \<times> u8 list)" where
  "Process pops tops pd context0 data =
     (if \<not> targetTemporalLayer context0 \<ge> 0 then Inl AssertionFailed
      else
        let context = UpdateOnKeyFrame pd (SyncManagers pops tops pd context0) in
        if hasPictureId pd \<and> hasTlIndex pd \<and> hasTl0PictureIndex pd
           \<and> IsSeqHigherThan pops (pictureId pd) (GetMaxInput pops (pictureIdManager context))
        then
          if uint (tlIndex pd) > targetTemporalLayer context
          then Inr (False, DropBoth pops tops pd context, data)
          else if uint (tlIndex pd) > currentTemporalLayer context \<and> \<not> y_bit pd
          then Inr (False, DropBoth pops tops pd context, data)
          else InputBoth pops tops pd context data
        else InputBoth pops tops pd context data)"

text \<open>
  Modelled from the spec: a SeqManager after section 4.1 of the specification, to run
  \<open>Process\<close> on. A value is higher than another when their difference is a non-zero
  value of the lower half. \<open>Sync\<close> re-anchors at the value and forgets the drops. \<open>Drop\<close>
  marks a value that is higher than every input seen, once; a value that was already let
  through keeps its place. \<open>Input\<close> refuses a marked value and maps any other down by the
  number of marked values below it, so that the values it lets through stay without gaps.
\<close>

record 'w SeqManager =
  maxInput :: 'w
  dropped :: "'w list"

definition isSeqHigherThan :: "'a::len word \<Rightarrow> 'a word \<Rightarrow> bool" where
  "isSeqHigherThan a b = (a \<noteq> b \<and> a - b < 2 ^ (LENGTH('a) - 1))"

definition seqManagerOps :: "('a::len word SeqManager, 'a word) SeqManagerOps" where
  "seqManagerOps =
     \<lparr>Sync = (\<lambda>m v. \<lparr>maxInput = v, dropped = []\<rparr>),
      Drop = (\<lambda>m v.
        if isSeqHigherThan v (maxInput m) then m\<lparr>dropped := List.insert v (dropped m)\<rparr>
        else m),
      Input = (\<lambda>m v.
        if v \<in> set (dropped m) then (False, v, m)
        else (True,
              v - of_nat (length (filter (\<lambda>d. isSeqHigherThan v d) (dropped m))),
              m\<lparr>maxInput := (if isSeqHigherThan v (maxInput m) then v else maxInput m)\<rparr>)),
      GetMaxInput = maxInput,
      IsSeqHigherThan = isSeqHigherThan\<rparr>"

section \<open>Control-plane requests\<close>

text \<open>
  The enumerators of \<open>Channel::Request::MethodId\<close> that the three handlers name; the enum
  itself is not among the sources, and \<open>otherMethod\<close> stands for every other enumerator.
\<close>

datatype MethodId =
    CONSUMER_DUMP
  | room_close | room_dump | room_createPeer
  | peer_close | peer_dump | peer_setCapabilities | peer_createTransport
  | peer_createRtpReceiver
  | transport_close | transport_dump | transport_setRemoteDtlsParameters
  | rtpReceiver_close | rtpReceiver_dump | rtpReceiver_receive
  | rtpReceiver_setRtpRawEvent | rtpReceiver_setRtpObjectEvent
  | rtpSender_dump | rtpSender_setTransport
  | otherMethod nat

text \<open>
  A request: its method, and the two members of \<open>internal\<close> that \<open>Room\<close> reads
  (\<open>None\<close> where the member is missing or of the wrong JSON type).
\<close>

record Request =
  methodId :: MethodId
  internalPeerId :: "u32 option"
  internalPeerName :: "string option"

text \<open>What the handler answers: \<open>Accept()\<close>, \<open>Accept(json)\<close> or \<open>Reject(reason)\<close>.\<close>

datatype 'j Response = Accept | AcceptData 'j | Reject string

text \<open>
  \<open>Consumer::HandleRequest\<close>. \<open>ToJson\<close> is a const member that builds the dump from members
  whose own \<open>ToJson\<close> is not among the sources; it is the parameter \<open>toJson\<close>.
\<close>

definition ConsumerHandleRequest ::
  "('s Consumer \<Rightarrow> 'j) \<Rightarrow> 's Consumer \<Rightarrow> Request \<Rightarrow> 's Consumer \<times> 'j Response" where
  "ConsumerHandleRequest toJson c request =
     (case methodId request of
        CONSUMER_DUMP \<Rightarrow> (c, AcceptData (toJson c))
      | _ \<Rightarrow> (c, Reject ''unknown method''))"

record RtpSender =
  rtpSenderId :: u32
  senderKind :: Kind
  senderTransport :: "nat option"
  available :: bool
  supportedPayloadTypes :: "u8 set"

definition RtpSenderHandleRequest ::
  "(RtpSender \<Rightarrow> 'j) \<Rightarrow> RtpSender \<Rightarrow> Request \<Rightarrow> RtpSender \<times> 'j Response" where
  "RtpSenderHandleRequest toJson sender request =
     (case methodId request of
        rtpSender_dump \<Rightarrow> (sender, AcceptData (toJson sender))
      | _ \<Rightarrow> (sender, Reject ''unknown method''))"

section \<open>Room\<close>

record Peer =
  peerId :: u32
  peerName :: string

text \<open>
  A Room: the map from a peerId to its Peer, and the map from a receiver to the set of its
  senders. Receivers and senders are pointers in the source and addresses (natural
  numbers) here. The two containers are declared in the header, which is not among the
  sources; they are iterated in the order of their keys and of the addresses.
\<close>

record Room =
  roomId :: u32
  peers :: "(u32, Peer) mapping"
  mapRtpReceiverRtpSenders :: "nat \<rightharpoonup> nat set"

text \<open>What a Room makes visible outside itself, in order.\<close>

datatype RoomEffect =
    Notify u32 string "(string \<times> string) list"  \<comment> \<open>\<open>notifier->Emit(targetId, event, data)\<close>\<close>
  | PeerClose u32                                  \<comment> \<open>\<open>peer->Close()\<close>\<close>
  | OnRoomClosed u32                               \<comment> \<open>\<open>listener->onRoomClosed(this)\<close>\<close>

text \<open>
  The collaborators of \<open>Room::HandleRequest\<close> that are not among the sources are
  parameters: the dump, the constructor of \<open>Peer\<close> (which may throw, \<open>Inl\<close> the message), and
  \<open>Peer::HandleRequest\<close>, which answers the request and may change the Room.
\<close>

record 'j RoomCollaborators =
  roomToJson :: "Room \<Rightarrow> 'j"
  newPeer :: "u32 \<Rightarrow> string \<Rightarrow> string + Peer"
  peerHandleRequest :: "Room \<Rightarrow> Peer \<Rightarrow> Request \<Rightarrow> Room option \<times> 'j Response"

text \<open>\<open>GetPeerFromRequest\<close>: throws (\<open>Inl\<close>) when \<open>internal.peerId\<close> is not a number.\<close>

definition GetPeerFromRequest :: "Room \<Rightarrow> Request \<Rightarrow> string + (u32 \<times> Peer option)" where
  "GetPeerFromRequest room request =
     (case internalPeerId request of
        None \<Rightarrow> Inl ''Request has not numeric .peerId field''
      | Some pid \<Rightarrow> Inr (pid, Mapping.lookup (peers room) pid))"

text \<open>
  \<open>Room::Close\<close> closes every peer, emits \<open>close\<close>, tells the listener and deletes the Room:
  no Room is left (\<open>None\<close>).
\<close>

definition RoomClose :: "Room \<Rightarrow> RoomEffect list" where
  "RoomClose room =
     map PeerClose (Mapping.ordered_keys (peers room))
       @ [Notify (roomId room) ''close'' [(''class'', ''Room'')], OnRoomClosed (roomId room)]"

text \<open>
  The branch of \<open>Room::HandleRequest\<close> that the methods of a Peer and of what a Peer owns
  share: the request goes to the Peer that \<open>internal.peerId\<close> names.
\<close>

definition HandlePeerRequest ::
  "'j RoomCollaborators \<Rightarrow> Room \<Rightarrow> Request \<Rightarrow> Room option \<times> RoomEffect list \<times> 'j Response" where
  "HandlePeerRequest env room request =
     (case GetPeerFromRequest room request of
        Inl what \<Rightarrow> (Some room, [], Reject what)
      | Inr (pid, None) \<Rightarrow> (Some room, [], Reject ''Peer does not exist'')
      | Inr (pid, Some peer) \<Rightarrow>
          (let (room', response) = peerHandleRequest env room peer request
           in (room', [], response)))"

definition RoomHandleRequest ::
  "'j RoomCollaborators \<Rightarrow> Room \<Rightarrow> Request \<Rightarrow> Room option \<times> RoomEffect list \<times> 'j Response" where
  "RoomHandleRequest env room request =
     (case methodId request of
        room_close \<Rightarrow> (None, RoomClose room, Accept)
      | room_dump \<Rightarrow> (Some room, [], AcceptData (roomToJson env room))
      | room_createPeer \<Rightarrow>
          (case GetPeerFromRequest room request of
             Inl what \<Rightarrow> (Some room, [], Reject what)
           | Inr (pid, Some peer) \<Rightarrow> (Some room, [], Reject ''Peer already exists'')
           | Inr (pid, None) \<Rightarrow>
               (case internalPeerName request of
                  None \<Rightarrow> (Some room, [], Reject ''Request has not string internal.peerName'')
                | Some name \<Rightarrow>
                    (case newPeer env pid name of
                       Inl what \<Rightarrow> (Some room, [], Reject what)
                     | Inr peer \<Rightarrow>
                         (Some (room\<lparr>peers := Mapping.update pid peer (peers room)\<rparr>), [], Accept))))
      | peer_close \<Rightarrow> HandlePeerRequest env room request
      | peer_dump \<Rightarrow> HandlePeerRequest env room request
      | peer_setCapabilities \<Rightarrow> HandlePeerRequest env room request
      | peer_createTransport \<Rightarrow> HandlePeerRequest env room request
      | peer_createRtpReceiver \<Rightarrow> HandlePeerRequest env room request
      | transport_close \<Rightarrow> HandlePeerRequest env room request
      | transport_dump \<Rightarrow> HandlePeerRequest env room request
      | transport_setRemoteDtlsParameters \<Rightarrow> HandlePeerRequest env room request
      | rtpReceiver_close \<Rightarrow> HandlePeerRequest env room request
      | rtpReceiver_dump \<Rightarrow> HandlePeerRequest env room request
      | rtpReceiver_receive \<Rightarrow> HandlePeerRequest env room request
      | rtpReceiver_setRtpRawEvent \<Rightarrow> HandlePeerRequest env room request
      | rtpReceiver_setRtpObjectEvent \<Rightarrow> HandlePeerRequest env room request
      | rtpSender_dump \<Rightarrow> HandlePeerRequest env room request
      | rtpSender_setTransport \<Rightarrow> HandlePeerRequest env room request
      | _ \<Rightarrow> (Some room, [], Reject ''unknown method''))"

text \<open>The methods each of the three handlers names.\<close>

definition consumerMethods :: "MethodId set" where
  "consumerMethods = {CONSUMER_DUMP}"

definition rtpSenderMethods :: "MethodId set" where
  "rtpSenderMethods = {rtpSender_dump}"

definition roomMethods :: "MethodId set" where
  "roomMethods =
     {room_close, room_dump, room_createPeer,
      peer_close, peer_dump, peer_setCapabilities, peer_createTransport,
      peer_createRtpReceiver,
      transport_close, transport_dump, transport_setRemoteDtlsParameters,
      rtpReceiver_close, rtpReceiver_dump, rtpReceiver_receive,
      rtpReceiver_setRtpRawEvent, rtpReceiver_setRtpObjectEvent,
      rtpSender_dump, rtpSender_setTransport}"

subsection \<open>Closing a receiver\<close>

text \<open>
  The senders live on the heap: \<open>heap a\<close> is the sender at address \<open>a\<close>, \<open>None\<close> once it
  is deleted. \<open>Room::onPeerRtpSenderClosed\<close> takes the sender out of every entry of the map.
\<close>

definition onPeerRtpSenderClosed :: "Room \<Rightarrow> nat \<Rightarrow> Room" where
  "onPeerRtpSenderClosed room rtpSender =
     room\<lparr>mapRtpReceiverRtpSenders :=
            (\<lambda>receiver. map_option (\<lambda>rtpSenders. rtpSenders - {rtpSender})
                           (mapRtpReceiverRtpSenders room receiver))\<rparr>"

text \<open>
  \<open>RtpSender::Close\<close> emits \<open>close\<close>, tells its listener and deletes the sender. The listener
  is the sender's Peer, which is not among the sources; as the comment in
  \<open>onPeerRtpReceiverClosed\<close> says, it hands the call on to \<open>Room::onPeerRtpSenderClosed\<close>.
\<close>

definition RtpSenderClose ::
  "Room \<times> (nat \<rightharpoonup> RtpSender) \<times> RoomEffect list \<Rightarrow> nat \<Rightarrow>
     error + (Room \<times> (nat \<rightharpoonup> RtpSender) \<times> RoomEffect list)" where
  "RtpSenderClose st rtpSender =
     (let (room, heap, effects) = st in
      case heap rtpSender of
        None \<Rightarrow> Inl UseAfterFree
      | Some sender \<Rightarrow>
          Inr (onPeerRtpSenderClosed room rtpSender,
               heap(rtpSender := None),
               effects @ [Notify (rtpSenderId sender) ''close'' [(''class'', ''RtpSender'')]]))"

text \<open>The loop over the copy of the set.\<close>

fun CloseRtpSenders ::
  "Room \<times> (nat \<rightharpoonup> RtpSender) \<times> RoomEffect list \<Rightarrow> nat list \<Rightarrow>
     error + (Room \<times> (nat \<rightharpoonup> RtpSender) \<times> RoomEffect list)" where
  "CloseRtpSenders st [] = Inr st"
| "CloseRtpSenders st (rtpSender # rest) =
     (case RtpSenderClose st rtpSender of
        Inl e \<Rightarrow> Inl e
      | Inr st' \<Rightarrow> CloseRtpSenders st' rest)"

definition onPeerRtpReceiverClosed ::
  "Room \<Rightarrow> (nat \<rightharpoonup> RtpSender) \<Rightarrow> nat \<Rightarrow>
     error + (Room \<times> (nat \<rightharpoonup> RtpSender) \<times> RoomEffect list)" where
  "onPeerRtpReceiverClosed room heap rtpReceiver =
     (case mapRtpReceiverRtpSenders room rtpReceiver of
        None \<Rightarrow> Inr (room, heap, [])
      | Some rtpSenders \<Rightarrow>
          (case CloseRtpSenders (room, heap, []) (sorted_list_of_set rtpSenders) of
             Inl e \<Rightarrow> Inl e
           | Inr (room', heap', effects) \<Rightarrow>
               Inr (room'\<lparr>mapRtpReceiverRtpSenders :=
                            (mapRtpReceiverRtpSenders room')(rtpReceiver := None)\<rparr>,
                    heap', effects)))"

section \<open>Example inputs\<close>

text \<open>
  A stream that takes every packet, a video Consumer that is enabled on one encoding
  (ssrc 2000) with the profiles LOW and HIGH of its producer, and a packet of the producer.
\<close>

definition acceptAll :: "unit RtpStreamSendOps" where
  "acceptAll = \<lparr>ReceivePacket = (\<lambda>s p. (True, s)), ClearRetransmissionBuffer = (\<lambda>s. s)\<rparr>"

definition exampleConsumer :: "unit Consumer" where
  "exampleConsumer =
     \<lparr>consumerId = 7, kind = VIDEO, listeners = [1], transport = Some 1,
      rtpParameters = \<lparr>encodings = [\<lparr>encodingSsrc = 2000\<rparr>]\<rparr>, rtpStream = Some (),
      supportedCodecPayloadTypes = {100}, paused = False, sourcePaused = False,
      preferredProfile = NONE, effectiveProfile = HIGH, profiles = {LOW, HIGH},
      syncRequired = True, seqNum = 1000, rtpTimestamp = 0, lastRecvSeqNum = 0,
      lastRecvRtpTimestamp = 0, transmittedCounter = \<lparr>packets = 0, bytes = 0\<rparr>\<rparr>"

definition examplePacket :: "u16 \<Rightarrow> u32 \<Rightarrow> RtpPacket" where
  "examplePacket s t =
     \<lparr>ssrc = 1000, sequenceNumber = s, timestamp = t, payloadType = 100, packetSize = 1200\<rparr>"







text \<open>
  A VP8 payload: an extended descriptor with a two-byte pictureId (291), tl0PictureIndex 5
  and temporal layer 1, then a payload header byte of an inter frame. With it the
  descriptor \<open>Parse\<close> reads from it, and an encoding context that waits for its first
  packet with target temporal layer 0.
\<close>

definition examplePayload :: "u8 list" where
  "examplePayload = [0x90, 0xE0, 0x81, 0x23, 0x05, 0x60, 0x01]"

definition exampleDescriptor :: PayloadDescriptor where
  "exampleDescriptor =
     \<lparr>extended = True, nonReference = False, start = True, partitionIndex = 0,
      i_bit = True, l_bit = True, t_bit = True, k_bit = False,
      pictureId = 291, tl0PictureIndex = 5, tlIndex = 1, y_bit = True, keyIndex = 0,
      isKeyFrame = False, hasPictureId = True, hasOneBytePictureId = False,
      hasTwoBytesPictureId = True, hasTl0PictureIndex = True, hasTlIndex = True\<rparr>"

definition exampleContext :: "(u16 SeqManager, u8 SeqManager) EncodingContext" where
  "exampleContext =
     \<lparr>contextSyncRequired = True,
      pictureIdManager = \<lparr>maxInput = 0, dropped = []\<rparr>,
      tl0PictureIndexManager = \<lparr>maxInput = 0, dropped = []\<rparr>,
      currentTemporalLayer = 0, targetTemporalLayer = 0\<rparr>"

text \<open>
  A second packet of picture 291, with tl0PictureIndex 6, and the context the first one
  leaves when it is dropped for its temporal layer, with the target layer raised to 1
  since. And a key frame of temporal layer 1 whose \<open>y\<close> is 0.
\<close>

definition secondPayload :: "u8 list" where
  "secondPayload = [0x90, 0xE0, 0x81, 0x23, 0x06, 0x60, 0x01]"

definition secondDescriptor :: PayloadDescriptor where
  "secondDescriptor = exampleDescriptor\<lparr>tl0PictureIndex := 6\<rparr>"

definition droppedContext :: "(u16 SeqManager, u8 SeqManager) EncodingContext" where
  "droppedContext =
     \<lparr>contextSyncRequired = False,
      pictureIdManager = \<lparr>maxInput = 290, dropped = [291]\<rparr>,
      tl0PictureIndexManager = \<lparr>maxInput = 4, dropped = [5]\<rparr>,
      currentTemporalLayer = 0, targetTemporalLayer = 1\<rparr>"

definition keyFramePayload :: "u8 list" where
  "keyFramePayload = [0x90, 0xE0, 0x81, 0x23, 0x05, 0x40, 0x00]"

definition keyFrameDescriptor :: PayloadDescriptor where
  "keyFrameDescriptor = exampleDescriptor\<lparr>y_bit := False, isKeyFrame := True\<rparr>"

text \<open>
  A Room with two peers and two receivers (at 5 and 6), the three senders of its map on
  the heap, collaborators that do nothing, and a request for a method of another entity.
\<close>

definition exampleSenders :: "nat \<rightharpoonup> RtpSender" where
  "exampleSenders =
     [10 \<mapsto> \<lparr>rtpSenderId = 11111111, senderKind = VIDEO, senderTransport = Some 1,
              available = True, supportedPayloadTypes = {100}\<rparr>,
      20 \<mapsto> \<lparr>rtpSenderId = 22222222, senderKind = VIDEO, senderTransport = None,
              available = True, supportedPayloadTypes = {100}\<rparr>,
      30 \<mapsto> \<lparr>rtpSenderId = 33333333, senderKind = AUDIO, senderTransport = None,
              available = False, supportedPayloadTypes = {}\<rparr>]"

definition exampleRoom :: Room where
  "exampleRoom =
     \<lparr>roomId = 1,
      peers = Mapping.of_alist
                [(1, \<lparr>peerId = 1, peerName = ''alice''\<rparr>), (2, \<lparr>peerId = 2, peerName = ''bob''\<rparr>)],
      mapRtpReceiverRtpSenders = [5 \<mapsto> {10, 20}, 6 \<mapsto> {30}]\<rparr>"

definition exampleCollaborators :: "unit RoomCollaborators" where
  "exampleCollaborators =
     \<lparr>roomToJson = (\<lambda>room. ()),
      newPeer = (\<lambda>pid name. Inr \<lparr>peerId = pid, peerName = name\<rparr>),
      peerHandleRequest = (\<lambda>room peer request. (Some room, Accept))\<rparr>"

definition exampleRequest :: Request where
  "exampleRequest = \<lparr>methodId = otherMethod 0, internalPeerId = Some 1, internalPeerName = None\<rparr>"

section \<open>Theorems\<close>

subsection \<open>Effective profile\<close>

text \<open>
  C1. The claim: with a preferred profile, \<open>RecalculateEffectiveProfile\<close> picks the greatest
  available profile that is not above the preferred one, as the comment in the source
  says. The code reads \<open>*lower_bound(preferredProfile)\<close>, the least available profile that
  is not below it. On a Consumer with LOW and HIGH available and HIGH effective,
  \<open>SetPreferredProfile(MEDIUM)\<close> leaves HIGH effective, above the preferred profile,
  although LOW is available; and were LOW effective, the recalculation would move to HIGH.
\<close>

theorem RecalculateEffectiveProfile_above_preferred:
  "SetPreferredProfile acceptAll exampleConsumer MEDIUM
     = Inr (exampleConsumer\<lparr>preferredProfile := MEDIUM\<rparr>, [])
   \<and> profiles exampleConsumer = {LOW, HIGH} \<and> effectiveProfile exampleConsumer = HIGH
   \<and> MEDIUM < HIGH \<and> LOW \<le> MEDIUM
   \<and> RecalculateEffectiveProfile acceptAll
       (exampleConsumer\<lparr>preferredProfile := MEDIUM, effectiveProfile := LOW\<rparr>)
     = Inr (exampleConsumer\<lparr>preferredProfile := MEDIUM, effectiveProfile := HIGH\<rparr>,
            [Emit 7 ''effectiveprofilechange'' [(''profile'', ''high'')],
             OnConsumerFullFrameRequired 1])"
  by code_simp

text \<open>
  C10. The claim: every call of \<open>RecalculateEffectiveProfile\<close> reads a valid element of
  \<open>profiles\<close>. On a Consumer whose set is \<open>{NONE}\<close>, \<open>AddProfile(LOW)\<close> leaves the set
  \<open>{LOW}\<close>. From there \<open>RemoveProfile(LOW)\<close> erases the last profile and the recalculation
  reads \<open>*crbegin()\<close> of the empty set; and \<open>SetPreferredProfile(HIGH)\<close> reads
  \<open>*lower_bound(HIGH)\<close>, which is \<open>end()\<close>, as it is on the first set \<open>{NONE}\<close>.
\<close>

theorem RemoveProfile_invalid_iterator:
  "AddProfile acceptAll (exampleConsumer\<lparr>profiles := {NONE}, effectiveProfile := NONE\<rparr>) LOW
     = Inr (exampleConsumer\<lparr>profiles := {LOW}, effectiveProfile := LOW\<rparr>,
            [Emit 7 ''effectiveprofilechange'' [(''profile'', ''low'')],
             OnConsumerFullFrameRequired 1])
   \<and> RemoveProfile acceptAll (exampleConsumer\<lparr>profiles := {LOW}, effectiveProfile := LOW\<rparr>) LOW
     = Inl InvalidIteratorDeref
   \<and> SetPreferredProfile acceptAll
       (exampleConsumer\<lparr>profiles := {LOW}, effectiveProfile := LOW\<rparr>) HIGH
     = Inl InvalidIteratorDeref
   \<and> SetPreferredProfile acceptAll
       (exampleConsumer\<lparr>profiles := {NONE}, effectiveProfile := NONE\<rparr>) HIGH
     = Inl InvalidIteratorDeref"
  by code_simp

subsection \<open>Forwarding a packet\<close>

lemma SendRtpPacket_example:
  "SendRtpPacket acceptAll exampleConsumer (examplePacket 101 12600) HIGH 5000
   = Inr (exampleConsumer\<lparr>syncRequired := False, seqNum := 1001, rtpTimestamp := 5000,
            lastRecvSeqNum := 101, lastRecvRtpTimestamp := 12600,
            transmittedCounter := \<lparr>packets = 1, bytes = 1200\<rparr>\<rparr>,
          examplePacket 101 12600,
          Some ((examplePacket 101 12600)\<lparr>ssrc := 2000, sequenceNumber := 1001,
                                           timestamp := 5000\<rparr>))"
  by code_simp


















text \<open>
  C3: when \<open>SendRtpPacket\<close> returns, the packet object has the SSRC, the sequence number
  and the timestamp it had at entry, whether the packet was transmitted or not; no other
  field of it is written either.
\<close>

theorem SendRtpPacket_restores_packet:
  assumes "SendRtpPacket ops c packet profile time = Inr (c', packet', sent)"
  shows "ssrc packet' = ssrc packet \<and> sequenceNumber packet' = sequenceNumber packet
       \<and> timestamp packet' = timestamp packet \<and> packet' = packet"
  using assms
  by (auto simp: SendRtpPacket_def Let_def
           split: if_splits list.splits option.splits prod.splits)

theorem SendRtpPacket_restores_packet_witness:
  "SendRtpPacket acceptAll exampleConsumer (examplePacket 101 12600) HIGH 5000
   = Inr (exampleConsumer\<lparr>syncRequired := False, seqNum := 1001, rtpTimestamp := 5000,
            lastRecvSeqNum := 101, lastRecvRtpTimestamp := 12600,
            transmittedCounter := \<lparr>packets = 1, bytes = 1200\<rparr>\<rparr>,
          examplePacket 101 12600,
          Some ((examplePacket 101 12600)\<lparr>ssrc := 2000, sequenceNumber := 1001,
                                           timestamp := 5000\<rparr>))
   \<and> ssrc (examplePacket 101 12600) = 1000
   \<and> sequenceNumber (examplePacket 101 12600) = 101
   \<and> timestamp (examplePacket 101 12600) = 12600"
  using SendRtpPacket_restores_packet [OF SendRtpPacket_example] SendRtpPacket_example
  by (simp add: examplePacket_def)

text \<open>
  C4: a call on a Consumer that is not enabled or is paused, or with a payload type that
  is not supported, or with a profile other than the effective one, transmits nothing and
  leaves the Consumer (and the packet) as they were.
\<close>

theorem SendRtpPacket_drops:
  assumes "\<not> IsEnabled c \<or> IsPaused c
           \<or> payloadType packet \<notin> supportedCodecPayloadTypes c
           \<or> profile \<noteq> effectiveProfile c"
  shows "SendRtpPacket ops c packet profile time = Inr (c, packet, None)"
  using assms by (auto simp: SendRtpPacket_def)

theorem SendRtpPacket_drops_witness:
  "profiles exampleConsumer = {LOW, HIGH} \<and> LOW \<noteq> effectiveProfile exampleConsumer
   \<and> SendRtpPacket acceptAll exampleConsumer (examplePacket 101 12600) LOW 5000
     = Inr (exampleConsumer, examplePacket 101 12600, None)
   \<and> SendRtpPacket acceptAll (exampleConsumer\<lparr>sourcePaused := True\<rparr>)
       (examplePacket 101 12600) HIGH 5000
     = Inr (exampleConsumer\<lparr>sourcePaused := True\<rparr>, examplePacket 101 12600, None)"
proof -
  have profile: "LOW \<noteq> effectiveProfile exampleConsumer"
    by (simp add: exampleConsumer_def)
  have paused: "IsPaused (exampleConsumer\<lparr>sourcePaused := True\<rparr>)"
    by (simp add: IsPaused_def)
  show ?thesis
    using SendRtpPacket_drops [of exampleConsumer "examplePacket 101 12600" LOW acceptAll 5000]
      SendRtpPacket_drops [of "exampleConsumer\<lparr>sourcePaused := True\<rparr>"
        "examplePacket 101 12600" HIGH acceptAll 5000]
      profile paused
    by (simp add: exampleConsumer_def)
qed

text \<open>
  C5: a call that passes the drop checks while sync is required, on a Consumer enabled
  on an encoding and a stream, returns with the output sequence number advanced by
  exactly 1, the output timestamp at the greater of its old value and the clock (as a
  32-bit value), and the sync flag cleared.
\<close>

theorem SendRtpPacket_sync:
  assumes "IsEnabled c" and "\<not> IsPaused c"
    and "payloadType packet \<in> supportedCodecPayloadTypes c"
    and "profile = effectiveProfile c"
    and "syncRequired c"
    and "encodings (rtpParameters c) \<noteq> []" and "rtpStream c \<noteq> None"
  shows "\<exists>c' packet' sent.
           SendRtpPacket ops c packet profile time = Inr (c', packet', sent)
           \<and> seqNum c' = seqNum c + 1
           \<and> rtpTimestamp c' = max (rtpTimestamp c) (ucast time)
           \<and> \<not> syncRequired c'"
  using assms
  by (auto simp: SendRtpPacket_def Let_def max_def
           split: if_splits list.splits option.splits prod.splits)

theorem SendRtpPacket_sync_witness:
  "IsEnabled exampleConsumer \<and> \<not> IsPaused exampleConsumer \<and> syncRequired exampleConsumer
   \<and> (\<exists>c' packet' sent.
         SendRtpPacket acceptAll exampleConsumer (examplePacket 64000 12600) HIGH 5000
           = Inr (c', packet', sent)
         \<and> seqNum c' = 1001 \<and> rtpTimestamp c' = 5000 \<and> \<not> syncRequired c')"
proof -
  have pre: "IsEnabled exampleConsumer" "\<not> IsPaused exampleConsumer"
    "payloadType (examplePacket 64000 12600) \<in> supportedCodecPayloadTypes exampleConsumer"
    "HIGH = effectiveProfile exampleConsumer" "syncRequired exampleConsumer"
    "encodings (rtpParameters exampleConsumer) \<noteq> []" "rtpStream exampleConsumer \<noteq> None"
    by (simp_all add: exampleConsumer_def examplePacket_def IsEnabled_def IsPaused_def)
  have "max (rtpTimestamp exampleConsumer) (ucast (5000 :: u64)) = (5000 :: u32)"
    by (simp add: exampleConsumer_def)
  moreover have "seqNum exampleConsumer + 1 = 1001"
    by (simp add: exampleConsumer_def)
  ultimately show ?thesis
    using SendRtpPacket_sync [OF pre, of acceptAll 5000] pre(1,2,5) by simp
qed

subsection \<open>VP8 payload descriptor\<close>

lemma Parse_example: "Parse examplePayload = Some exampleDescriptor"
  by code_simp


lemma bitFlag_bit: "bitFlag b n = bit b n"
  by (simp add: bitFlag_def bit_iff_odd_drop_bit and_one_eq mod_2_eq_odd)

lemma mask7: "(0x7F :: u8) = mask 7"
  by (simp add: mask_eq_exp_minus_1)

lemma bit_128_int: "bit (128 :: int) n = (n = 7)"
proof -
  have "(128 :: int) = push_bit 7 1" by simp
  then show ?thesis by (simp only: bit_simps) auto
qed

lemma pictureId_add_or:
  fixes x lo :: u8
  shows "push_bit 8 (ucast x :: u16) + ucast lo = push_bit 8 (ucast x) OR ucast lo"
  by (rule disjunctive_add) (auto simp: bit_simps dest: bit_imp_le_length)

lemma bit_pictureId:
  fixes x lo :: u8
  shows "bit (push_bit 8 (ucast x :: u16) + ucast lo) n
           = (if n < 8 then bit lo n else n < 16 \<and> bit x (n - 8))"
  unfolding pictureId_add_or
  by (auto simp: bit_simps dest: bit_imp_le_length)

lemma pictureId_high_byte:
  fixes b lo :: u8
  assumes "bitFlag b 7"
  shows "ucast (drop_bit 8 (push_bit 8 (ucast (b AND 0x7F) :: u16) + ucast lo)) OR 0x80 = b"
proof (rule bit_eqI)
  fix n
  assume "possible_bit TYPE(u8) n"
  then have n: "n < 8" by simp
  from assms have b7: "bit b 7" by (simp add: bitFlag_bit)
  have "bit (ucast (drop_bit 8 (push_bit 8 (ucast (b AND 0x7F) :: u16) + ucast lo)) :: u8) n
          = (n < 7 \<and> bit b n)"
    using n by (auto simp: bit_ucast_iff bit_drop_bit_eq bit_pictureId mask7 bit_and_iff bit_mask_iff)
  then show "bit (ucast (drop_bit 8 (push_bit 8 (ucast (b AND 0x7F) :: u16) + ucast lo))
                    OR 0x80 :: u8) n = bit b n"
    using n b7 by (cases "n = 7") (simp_all add: bit_or_iff bit_128_int)
qed

lemma pictureId_low_byte:
  fixes x lo :: u8
  shows "ucast (push_bit 8 (ucast x :: u16) + ucast lo) = lo"
proof (rule bit_eqI)
  fix n
  assume "possible_bit TYPE(u8) n"
  then have n: "n < 8" by simp
  show "bit (ucast (push_bit 8 (ucast x :: u16) + ucast lo) :: u8) n = bit lo n"
    using n by (simp add: bit_ucast_iff bit_pictureId)
qed

lemma pictureId_one_byte:
  fixes b :: u8
  assumes "\<not> bitFlag b 7"
  shows "ucast (ucast (b AND 0x7F) :: u16) = b"
proof (rule bit_eqI)
  fix n
  assume "possible_bit TYPE(u8) n"
  then have n: "n < 8" by simp
  from assms have b7: "\<not> bit b 7" by (simp add: bitFlag_bit)
  show "bit (ucast (ucast (b AND 0x7F) :: u16) :: u8) n = bit b n"
    using n b7 by (cases "n = 7") (auto simp: bit_ucast_iff mask7 bit_and_iff bit_mask_iff)
qed

lemma Parse_stages:
  assumes "Parse data = Some pd"
  shows "\<exists>pd0 off1 pd1 off2 pd2 off3 pd3.
           2 \<le> length data \<and> extended pd0
           \<and> \<not> hasTwoBytesPictureId pd0 \<and> \<not> hasOneBytePictureId pd0
           \<and> ParsePictureId data (1, pd0) = Some (off1, pd1)
           \<and> ParseTl0PictureIndex data (off1, pd1) = Some (off2, pd2)
           \<and> ParseTlIndex data (off2, pd2) = Some (off3, pd3)
           \<and> (pd = pd3 \<or> pd = pd3\<lparr>isKeyFrame := True\<rparr>)"
proof -
  define pd0 where
    "pd0 = newPayloadDescriptor
             \<lparr>extended := bitFlag (data ! 0) 7, nonReference := bitFlag (data ! 0) 5,
              start := bitFlag (data ! 0) 4, partitionIndex := data ! 0 AND 0x07,
              i_bit := bitFlag (data ! 1) 7, l_bit := bitFlag (data ! 1) 6,
              t_bit := bitFlag (data ! 1) 5, k_bit := bitFlag (data ! 1) 4\<rparr>"
  from assms have len: "2 \<le> length data" and ext: "extended pd0"
    by (auto simp: Parse_def Let_def pd0_def split: if_splits)
  have fresh: "\<not> hasTwoBytesPictureId pd0" "\<not> hasOneBytePictureId pd0"
    by (simp_all add: pd0_def newPayloadDescriptor_def)
  from assms len ext obtain st1 st2 st3 where
    s1: "ParsePictureId data (1, pd0) = Some st1"
    and s2: "ParseTl0PictureIndex data st1 = Some st2"
    and s3: "ParseTlIndex data st2 = Some st3"
    and pd: "pd = snd st3 \<or> pd = (snd st3)\<lparr>isKeyFrame := True\<rparr>"
    by (auto simp: Parse_def Let_def pd0_def split: if_splits option.splits prod.splits)
  show ?thesis
    using len ext fresh s1 s2 s3 pd
    by (cases st1; cases st2; cases st3) auto
qed

lemma Encode_cong:
  assumes "extended a = extended b" "i_bit a = i_bit b" "l_bit a = l_bit b"
    "hasTwoBytesPictureId a = hasTwoBytesPictureId b"
    "hasOneBytePictureId a = hasOneBytePictureId b"
  shows "Encode a data p q = Encode b data p q"
  using assms unfolding Encode_def EncodePictureId_def
  by (simp split: sum.splits prod.splits)

lemma ParsePictureId_Encode:
  assumes "ParsePictureId data (1, pd0) = Some (off1, pd1)"
    and "\<not> hasTwoBytesPictureId pd0" "\<not> hasOneBytePictureId pd0"
  shows "extended pd1 = extended pd0 \<and> l_bit pd1 = l_bit pd0
       \<and> (if i_bit pd1 then EncodePictureId pd1 data 2 (pictureId pd1) else Inr (data, 2))
           = Inr (data, off1 + 1)"
  using assms
  by (auto simp: ParsePictureId_def Let_def EncodePictureId_def writeByte_def
                 pictureId_high_byte pictureId_low_byte pictureId_one_byte
                 list_eq_iff_nth_eq nth_list_update numeral_2_eq_2 numeral_3_eq_3
           split: if_splits)

lemma ParseTl0PictureIndex_fields:
  assumes "ParseTl0PictureIndex data (off1, pd1) = Some (off2, pd2)"
  shows "extended pd2 = extended pd1 \<and> i_bit pd2 = i_bit pd1 \<and> l_bit pd2 = l_bit pd1
       \<and> hasTwoBytesPictureId pd2 = hasTwoBytesPictureId pd1
       \<and> hasOneBytePictureId pd2 = hasOneBytePictureId pd1
       \<and> pictureId pd2 = pictureId pd1
       \<and> (l_bit pd1 \<longrightarrow> off1 + 1 < length data \<and> tl0PictureIndex pd2 = data ! (off1 + 1))"
  using assms
  by (auto simp: ParseTl0PictureIndex_def Let_def split: if_splits)

lemma ParseTlIndex_fields:
  assumes "ParseTlIndex data (off2, pd2) = Some (off3, pd3)"
  shows "extended pd3 = extended pd2 \<and> i_bit pd3 = i_bit pd2 \<and> l_bit pd3 = l_bit pd2
       \<and> hasTwoBytesPictureId pd3 = hasTwoBytesPictureId pd2
       \<and> hasOneBytePictureId pd3 = hasOneBytePictureId pd2
       \<and> pictureId pd3 = pictureId pd2 \<and> tl0PictureIndex pd3 = tl0PictureIndex pd2"
  using assms
  by (auto simp: ParseTlIndex_def Let_def split: if_splits)

text \<open>
  C7: on a buffer that \<open>Parse\<close> accepts, \<open>Encode\<close> with the parsed pictureId and
  tl0PictureIndex (which is what \<open>Restore\<close> does) writes inside the buffer and leaves every
  byte as it was.
\<close>

theorem Parse_Encode_roundtrip:
  assumes "Parse data = Some pd"
  shows "Encode pd data (pictureId pd) (tl0PictureIndex pd) = Inr data
       \<and> Restore pd data = Inr data"
proof -
  from Parse_stages [OF assms] obtain pd0 off1 pd1 off2 pd2 off3 pd3 where
    ext: "extended pd0"
    and fresh: "\<not> hasTwoBytesPictureId pd0" "\<not> hasOneBytePictureId pd0"
    and s1: "ParsePictureId data (1, pd0) = Some (off1, pd1)"
    and s2: "ParseTl0PictureIndex data (off1, pd1) = Some (off2, pd2)"
    and s3: "ParseTlIndex data (off2, pd2) = Some (off3, pd3)"
    and pd: "pd = pd3 \<or> pd = pd3\<lparr>isKeyFrame := True\<rparr>"
    by blast
  note f1 = ParsePictureId_Encode [OF s1 fresh]
  note f2 = ParseTl0PictureIndex_fields [OF s2]
  note f3 = ParseTlIndex_fields [OF s3]
  have same: "Encode pd data (pictureId pd) (tl0PictureIndex pd)
                = Encode pd1 data (pictureId pd1) (tl0PictureIndex pd2)"
    using pd f2 f3 by (auto intro!: Encode_cong)
  have "Encode pd1 data (pictureId pd1) (tl0PictureIndex pd2) = Inr data"
    using ext f1 f2 by (auto simp: Encode_def writeByte_def)
  with same show ?thesis
    by (simp add: Restore_def)
qed

theorem Parse_Encode_roundtrip_witness:
  "Parse examplePayload = Some exampleDescriptor
   \<and> Encode exampleDescriptor examplePayload 291 5 = Inr examplePayload
   \<and> Restore exampleDescriptor examplePayload = Inr examplePayload"
  using Parse_Encode_roundtrip [OF Parse_example] Parse_example
  by (simp add: exampleDescriptor_def)

lemma Parse_Encode_defined:
  assumes "Parse data = Some pd"
  shows "\<exists>data'. Encode pd data p q = Inr data'"
  using assms
  apply (simp add: Parse_def Let_def split: if_splits option.splits prod.splits)
  apply (auto simp: ParsePictureId_def ParseTl0PictureIndex_def ParseTlIndex_def Let_def Encode_def EncodePictureId_def writeByte_def newPayloadDescriptor_def split: if_splits)
  done

lemma InputBoth_kept:
  assumes "hasPictureId pd" "hasTl0PictureIndex pd"
    and "Input pops (pictureIdManager context) (pictureId pd) = (keptP, outP, mP)"
    and "Input tops (tl0PictureIndexManager context) (tl0PictureIndex pd) = (keptT, outT, mT)"
    and "Encode pd data outP outT = Inr encoded"
  shows "\<exists>context' data'. InputBoth pops tops pd context data = Inr (keptP \<and> keptT, context', data')
           \<and> pictureIdManager context' = mP
           \<and> tl0PictureIndexManager context'
               = (if keptP then mT else tl0PictureIndexManager context)
           \<and> (keptP \<and> keptT \<longrightarrow> data' = encoded)
           \<and> (\<not> (keptP \<and> keptT) \<longrightarrow> data' = data)"
  using assms by (auto simp: InputBoth_def Let_def)

lemma Parse_second: "Parse secondPayload = Some secondDescriptor"
  by code_simp

lemma Parse_keyFrame: "Parse keyFramePayload = Some keyFrameDescriptor"
  by code_simp

lemma Process_second:
  "Process seqManagerOps seqManagerOps secondDescriptor droppedContext secondPayload
   = Inr (False, droppedContext, secondPayload)"
  by code_simp

lemma Process_keyFrame:
  "Process seqManagerOps seqManagerOps keyFrameDescriptor
     (exampleContext\<lparr>targetTemporalLayer := 1\<rparr>) keyFramePayload
   = Inr (True,
          \<lparr>contextSyncRequired = False,
           pictureIdManager = \<lparr>maxInput = 291, dropped = []\<rparr>,
           tl0PictureIndexManager = \<lparr>maxInput = 5, dropped = []\<rparr>,
           currentTemporalLayer = 1, targetTemporalLayer = 1\<rparr>,
          keyFramePayload)"
  by code_simp

text \<open>
  C6, as stated: for a packet that carries pictureId, tlIndex and tl0PictureIndex, with a
  pictureId newer than the maximum input of its manager, \<open>Process\<close> drops on both managers
  and returns false when tlIndex is above the target layer, or above the current layer
  with \<open>y\<close> at 0; otherwise both indices go through \<open>Input\<close> of their managers. Two calls
  show that it is not so. The second packet of a picture that was dropped, after the
  target layer was raised: tlIndex is not above the target and \<open>y\<close> is 1; \<open>Input\<close> of the
  pictureId manager refuses the pictureId, \<open>Process\<close> returns false there, and the
  tl0PictureIndex manager is as it was, though \<open>Input\<close> on it would have moved its maximum
  from 4 to 6. And a key frame of temporal layer 1 with \<open>y\<close> at 0, in a context whose
  current layer is 0 and whose target layer is 1: the key frame raises the current layer
  to the target before the layers are compared, and \<open>Process\<close> returns true.
\<close>

theorem Process_skips_tl0PictureIndex:
  "Parse secondPayload = Some secondDescriptor
   \<and> hasPictureId secondDescriptor \<and> hasTlIndex secondDescriptor
   \<and> hasTl0PictureIndex secondDescriptor
   \<and> IsSeqHigherThan seqManagerOps (pictureId secondDescriptor)
       (GetMaxInput seqManagerOps (pictureIdManager droppedContext))
   \<and> \<not> uint (tlIndex secondDescriptor) > targetTemporalLayer droppedContext
   \<and> y_bit secondDescriptor
   \<and> Input seqManagerOps (tl0PictureIndexManager droppedContext)
       (tl0PictureIndex secondDescriptor)
     = (True, 5, \<lparr>maxInput = 6, dropped = [5]\<rparr>)
   \<and> Process seqManagerOps seqManagerOps secondDescriptor droppedContext secondPayload
     = Inr (False, droppedContext, secondPayload)
   \<and> tl0PictureIndexManager droppedContext = \<lparr>maxInput = 4, dropped = [5]\<rparr>
   \<and> Parse keyFramePayload = Some keyFrameDescriptor
   \<and> hasPictureId keyFrameDescriptor \<and> hasTlIndex keyFrameDescriptor
   \<and> hasTl0PictureIndex keyFrameDescriptor
   \<and> IsSeqHigherThan seqManagerOps (pictureId keyFrameDescriptor)
       (GetMaxInput seqManagerOps (pictureIdManager exampleContext))
   \<and> IsSeqHigherThan seqManagerOps (pictureId keyFrameDescriptor)
       (GetMaxInput seqManagerOps
          (pictureIdManager
             (SyncManagers seqManagerOps seqManagerOps keyFrameDescriptor
                (exampleContext\<lparr>targetTemporalLayer := 1\<rparr>))))
   \<and> uint (tlIndex keyFrameDescriptor) > currentTemporalLayer exampleContext
   \<and> \<not> y_bit keyFrameDescriptor
   \<and> Process seqManagerOps seqManagerOps keyFrameDescriptor
        (exampleContext\<lparr>targetTemporalLayer := 1\<rparr>) keyFramePayload
     = Inr (True,
            \<lparr>contextSyncRequired = False,
             pictureIdManager = \<lparr>maxInput = 291, dropped = []\<rparr>,
             tl0PictureIndexManager = \<lparr>maxInput = 5, dropped = []\<rparr>,
             currentTemporalLayer = 1, targetTemporalLayer = 1\<rparr>,
            keyFramePayload)"
proof -
  have "hasPictureId secondDescriptor" "hasTlIndex secondDescriptor"
    "hasTl0PictureIndex secondDescriptor" "y_bit secondDescriptor"
    "\<not> uint (tlIndex secondDescriptor) > targetTemporalLayer droppedContext"
    "IsSeqHigherThan seqManagerOps (pictureId secondDescriptor)
       (GetMaxInput seqManagerOps (pictureIdManager droppedContext))"
    "Input seqManagerOps (tl0PictureIndexManager droppedContext)
       (tl0PictureIndex secondDescriptor)
     = (True, 5, \<lparr>maxInput = 6, dropped = [5]\<rparr>)"
    "tl0PictureIndexManager droppedContext = \<lparr>maxInput = 4, dropped = [5]\<rparr>"
    by (simp_all add: isSeqHigherThan_def secondDescriptor_def exampleDescriptor_def
          droppedContext_def seqManagerOps_def)
  moreover have "hasPictureId keyFrameDescriptor" "hasTlIndex keyFrameDescriptor"
    "hasTl0PictureIndex keyFrameDescriptor" "\<not> y_bit keyFrameDescriptor"
    "uint (tlIndex keyFrameDescriptor) > currentTemporalLayer exampleContext"
    "IsSeqHigherThan seqManagerOps (pictureId keyFrameDescriptor)
       (GetMaxInput seqManagerOps (pictureIdManager exampleContext))"
    "IsSeqHigherThan seqManagerOps (pictureId keyFrameDescriptor)
       (GetMaxInput seqManagerOps
          (pictureIdManager
             (SyncManagers seqManagerOps seqManagerOps keyFrameDescriptor
                (exampleContext\<lparr>targetTemporalLayer := 1\<rparr>))))"
    by (simp_all add: keyFrameDescriptor_def exampleDescriptor_def exampleContext_def
          SyncManagers_def seqManagerOps_def isSeqHigherThan_def)
  ultimately show ?thesis
    using Parse_second Process_second Parse_keyFrame Process_keyFrame by simp
qed

text \<open>
  C6, amended: for the descriptor of a VP8 payload that carries pictureId, tlIndex and
  tl0PictureIndex, in a context with a target temporal layer, and with the pictureId
  newer than the maximum input of the pictureId manager once \<open>Process\<close> has synced the
  managers (when the context asks for it): if tlIndex is above the target layer,
  \<open>Process\<close> calls \<open>Drop\<close> on both managers and returns false; if tlIndex is above the
  current layer the context comes with, the packet is not a key frame and \<open>y\<close> is 0, the
  same; otherwise the pictureId goes through \<open>Input\<close> of its manager, the tl0PictureIndex
  goes through \<open>Input\<close> of its manager only when the pictureId was kept, and its manager is
  left as it is when not; \<open>Process\<close> returns true exactly when both were kept, with the
  mapped values encoded into the buffer, and leaves the buffer as it is when not.
\<close>

theorem Process_temporal_layers:
  assumes parsed: "Parse data = Some pd"
    and target: "0 \<le> targetTemporalLayer context0"
    and has: "hasPictureId pd" "hasTlIndex pd" "hasTl0PictureIndex pd"
    and synced: "synced = SyncManagers pops tops pd context0"
    and newer: "IsSeqHigherThan pops (pictureId pd) (GetMaxInput pops (pictureIdManager synced))"
    and inputP: "Input pops (pictureIdManager synced) (pictureId pd) = (keptP, outP, mP)"
    and inputT: "Input tops (tl0PictureIndexManager synced) (tl0PictureIndex pd) = (keptT, outT, mT)"
  shows "(uint (tlIndex pd) > targetTemporalLayer context0 \<longrightarrow>
            Process pops tops pd context0 data =
              Inr (False,
                   (UpdateOnKeyFrame pd synced)
                     \<lparr>pictureIdManager := Drop pops (pictureIdManager synced) (pictureId pd),
                      tl0PictureIndexManager :=
                        Drop tops (tl0PictureIndexManager synced) (tl0PictureIndex pd)\<rparr>,
                   data))
       \<and> (uint (tlIndex pd) > currentTemporalLayer context0 \<and> \<not> isKeyFrame pd \<and> \<not> y_bit pd \<longrightarrow>
            Process pops tops pd context0 data =
              Inr (False,
                   (UpdateOnKeyFrame pd synced)
                     \<lparr>pictureIdManager := Drop pops (pictureIdManager synced) (pictureId pd),
                      tl0PictureIndexManager :=
                        Drop tops (tl0PictureIndexManager synced) (tl0PictureIndex pd)\<rparr>,
                   data))
       \<and> (\<not> uint (tlIndex pd) > targetTemporalLayer context0
            \<and> \<not> (uint (tlIndex pd) > currentTemporalLayer context0 \<and> \<not> isKeyFrame pd
                   \<and> \<not> y_bit pd) \<longrightarrow>
            (\<exists>context' data'.
               Process pops tops pd context0 data = Inr (keptP \<and> keptT, context', data')
               \<and> pictureIdManager context' = mP
               \<and> tl0PictureIndexManager context'
                   = (if keptP then mT else tl0PictureIndexManager synced)
               \<and> (keptP \<and> keptT \<longrightarrow> Encode pd data outP outT = Inr data')
               \<and> (\<not> (keptP \<and> keptT) \<longrightarrow> data' = data)))"
proof -
  define ctx where "ctx = UpdateOnKeyFrame pd synced"
  have managers: "pictureIdManager ctx = pictureIdManager synced"
    "tl0PictureIndexManager ctx = tl0PictureIndexManager synced"
    by (simp_all add: ctx_def UpdateOnKeyFrame_def)
  have layers: "targetTemporalLayer ctx = targetTemporalLayer context0"
    "currentTemporalLayer ctx
       = (if isKeyFrame pd then targetTemporalLayer context0 else currentTemporalLayer context0)"
    by (simp_all add: ctx_def synced UpdateOnKeyFrame_def SyncManagers_def)
  obtain encoded where enc: "Encode pd data outP outT = Inr encoded"
    using Parse_Encode_defined [OF parsed] by blast
  have drop: "uint (tlIndex pd) > targetTemporalLayer context0
                \<or> (uint (tlIndex pd) > currentTemporalLayer context0 \<and> \<not> isKeyFrame pd
                    \<and> \<not> y_bit pd) \<Longrightarrow>
              Process pops tops pd context0 data = Inr (False, DropBoth pops tops pd ctx, data)"
    using target has newer managers layers
    by (auto simp: Process_def Let_def ctx_def [symmetric] synced [symmetric])
  have keep: "\<not> uint (tlIndex pd) > targetTemporalLayer context0 \<Longrightarrow>
              \<not> (uint (tlIndex pd) > currentTemporalLayer context0 \<and> \<not> isKeyFrame pd
                  \<and> \<not> y_bit pd) \<Longrightarrow>
              Process pops tops pd context0 data = InputBoth pops tops pd ctx data"
    using target has newer managers layers
    by (auto simp: Process_def Let_def ctx_def [symmetric] synced [symmetric])
  from inputP inputT have inputs:
    "Input pops (pictureIdManager ctx) (pictureId pd) = (keptP, outP, mP)"
    "Input tops (tl0PictureIndexManager ctx) (tl0PictureIndex pd) = (keptT, outT, mT)"
    by (simp_all add: managers)
  show ?thesis
    using drop keep InputBoth_kept [OF has(1) has(3) inputs enc]
    by (auto simp: DropBoth_def enc managers ctx_def [symmetric])
qed

theorem Process_temporal_layers_witness:
  "Parse examplePayload = Some exampleDescriptor
   \<and> tlIndex exampleDescriptor = 1 \<and> y_bit exampleDescriptor
   \<and> Process seqManagerOps seqManagerOps exampleDescriptor exampleContext examplePayload
     = Inr (False,
            \<lparr>contextSyncRequired = False,
             pictureIdManager = \<lparr>maxInput = 290, dropped = [291]\<rparr>,
             tl0PictureIndexManager = \<lparr>maxInput = 4, dropped = [5]\<rparr>,
             currentTemporalLayer = 0, targetTemporalLayer = 0\<rparr>,
            examplePayload)
   \<and> (\<exists>context'.
        Process seqManagerOps seqManagerOps exampleDescriptor
          (exampleContext\<lparr>targetTemporalLayer := 1\<rparr>) examplePayload
        = Inr (True, context', examplePayload)
        \<and> pictureIdManager context' = \<lparr>maxInput = 291, dropped = []\<rparr>
        \<and> tl0PictureIndexManager context' = \<lparr>maxInput = 5, dropped = []\<rparr>)"
proof -
  define synced0 where
    "synced0 = SyncManagers seqManagerOps seqManagerOps exampleDescriptor exampleContext"
  define synced1 where
    "synced1 = SyncManagers seqManagerOps seqManagerOps exampleDescriptor
                 (exampleContext\<lparr>targetTemporalLayer := 1\<rparr>)"
  have synced0: "synced0 = \<lparr>contextSyncRequired = False,
             pictureIdManager = \<lparr>maxInput = 290, dropped = []\<rparr>,
             tl0PictureIndexManager = \<lparr>maxInput = 4, dropped = []\<rparr>,
             currentTemporalLayer = 0, targetTemporalLayer = 0\<rparr>"
    by (simp add: synced0_def SyncManagers_def exampleDescriptor_def exampleContext_def
          seqManagerOps_def)
  have synced1: "synced1 = synced0\<lparr>targetTemporalLayer := 1\<rparr>"
    by (simp add: synced0_def synced1_def SyncManagers_def exampleDescriptor_def
          exampleContext_def seqManagerOps_def)
  have target: "0 \<le> targetTemporalLayer exampleContext"
    "0 \<le> targetTemporalLayer (exampleContext\<lparr>targetTemporalLayer := 1\<rparr>)"
    by (simp_all add: exampleContext_def)
  have has: "hasPictureId exampleDescriptor" "hasTlIndex exampleDescriptor"
    "hasTl0PictureIndex exampleDescriptor"
    by (simp_all add: exampleDescriptor_def)
  have newer: "IsSeqHigherThan seqManagerOps (pictureId exampleDescriptor)
                 (GetMaxInput seqManagerOps (pictureIdManager synced0))"
    "IsSeqHigherThan seqManagerOps (pictureId exampleDescriptor)
                 (GetMaxInput seqManagerOps (pictureIdManager synced1))"
    by (simp_all add: synced0 synced1 seqManagerOps_def isSeqHigherThan_def exampleDescriptor_def)
  have inputP: "Input seqManagerOps (pictureIdManager synced0) (pictureId exampleDescriptor)
                  = (True, 291, \<lparr>maxInput = 291, dropped = []\<rparr>)"
    "Input seqManagerOps (pictureIdManager synced1) (pictureId exampleDescriptor)
                  = (True, 291, \<lparr>maxInput = 291, dropped = []\<rparr>)"
    by (simp_all add: synced0 synced1 seqManagerOps_def isSeqHigherThan_def exampleDescriptor_def)
  have inputT: "Input seqManagerOps (tl0PictureIndexManager synced0)
                  (tl0PictureIndex exampleDescriptor)
                  = (True, 5, \<lparr>maxInput = 5, dropped = []\<rparr>)"
    "Input seqManagerOps (tl0PictureIndexManager synced1)
                  (tl0PictureIndex exampleDescriptor)
                  = (True, 5, \<lparr>maxInput = 5, dropped = []\<rparr>)"
    by (simp_all add: synced0 synced1 seqManagerOps_def isSeqHigherThan_def exampleDescriptor_def)
  have encoded: "Encode exampleDescriptor examplePayload 291 5 = Inr examplePayload"
    by code_simp
  have dropCase:
    "Process seqManagerOps seqManagerOps exampleDescriptor exampleContext examplePayload
     = Inr (False,
            \<lparr>contextSyncRequired = False,
             pictureIdManager = \<lparr>maxInput = 290, dropped = [291]\<rparr>,
             tl0PictureIndexManager = \<lparr>maxInput = 4, dropped = [5]\<rparr>,
             currentTemporalLayer = 0, targetTemporalLayer = 0\<rparr>,
            examplePayload)"
    using Process_temporal_layers
            [OF Parse_example target(1) has synced0_def newer(1) inputP(1) inputT(1)]
    by (simp add: synced0 seqManagerOps_def isSeqHigherThan_def UpdateOnKeyFrame_def
          exampleDescriptor_def exampleContext_def)
  have keepCase:
    "\<exists>context'.
        Process seqManagerOps seqManagerOps exampleDescriptor
          (exampleContext\<lparr>targetTemporalLayer := 1\<rparr>) examplePayload
        = Inr (True, context', examplePayload)
        \<and> pictureIdManager context' = \<lparr>maxInput = 291, dropped = []\<rparr>
        \<and> tl0PictureIndexManager context' = \<lparr>maxInput = 5, dropped = []\<rparr>"
    using Process_temporal_layers
            [OF Parse_example target(2) has synced1_def newer(2) inputP(2) inputT(2)]
      encoded
    by (auto simp: exampleDescriptor_def exampleContext_def)
  show ?thesis
    using dropCase keepCase Parse_example by (simp add: exampleDescriptor_def)
qed

subsection \<open>Room\<close>

lemma CloseRtpSenders_result:
  assumes "distinct xs" and "set xs \<subseteq> dom heap"
  shows "CloseRtpSenders (room, heap, effects) xs =
           Inr (room\<lparr>mapRtpReceiverRtpSenders :=
                       (\<lambda>receiver. map_option (\<lambda>rtpSenders. rtpSenders - set xs)
                                      (mapRtpReceiverRtpSenders room receiver))\<rparr>,
                (\<lambda>a. if a \<in> set xs then None else heap a),
                effects @ map (\<lambda>a. Notify (rtpSenderId (the (heap a))) ''close''
                                      [(''class'', ''RtpSender'')]) xs)"
  using assms
proof (induction xs arbitrary: room heap effects)
  case Nil
  then show ?case
    by (simp add: option.map_ident)
next
  case (Cons x xs)
  from Cons.prems obtain sender where sender: "heap x = Some sender"
    by auto
  have step: "RtpSenderClose (room, heap, effects) x =
                Inr (onPeerRtpSenderClosed room x, heap(x := None),
                     effects @ [Notify (rtpSenderId sender) ''close'' [(''class'', ''RtpSender'')]])"
    by (simp add: RtpSenderClose_def sender)
  have rest: "distinct xs" "set xs \<subseteq> dom (heap(x := None))"
    using Cons.prems by auto
  have same: "map (\<lambda>a. Notify (rtpSenderId (the ((heap(x := None)) a))) ''close''
                          [(''class'', ''RtpSender'')]) xs
              = map (\<lambda>a. Notify (rtpSenderId (the (heap a))) ''close''
                          [(''class'', ''RtpSender'')]) xs"
    using Cons.prems by auto
  have room_eq:
    "(onPeerRtpSenderClosed room x)
       \<lparr>mapRtpReceiverRtpSenders :=
          (\<lambda>receiver. map_option (\<lambda>rtpSenders. rtpSenders - set xs)
                         (mapRtpReceiverRtpSenders (onPeerRtpSenderClosed room x) receiver))\<rparr>
     = room\<lparr>mapRtpReceiverRtpSenders :=
               (\<lambda>receiver. map_option (\<lambda>rtpSenders. rtpSenders - set (x # xs))
                              (mapRtpReceiverRtpSenders room receiver))\<rparr>"
  proof -
    have "\<And>S. S - {x} - set xs = S - insert x (set xs)"
      by auto
    then show ?thesis
      by (simp add: onPeerRtpSenderClosed_def option.map_comp comp_def)
  qed
  have heap_eq:
    "(\<lambda>a. if a \<in> set xs then None else (heap(x := None)) a)
     = (\<lambda>a. if a \<in> set (x # xs) then None else heap a)"
    by auto
  show ?case
  proof -
    let ?n = "Notify (rtpSenderId sender) ''close'' [(''class'', ''RtpSender'')]"
    have "CloseRtpSenders (room, heap, effects) (x # xs)
            = CloseRtpSenders (onPeerRtpSenderClosed room x, heap(x := None), effects @ [?n]) xs"
      by (simp add: step)
    also note Cons.IH [OF rest]
    finally show ?thesis
      unfolding room_eq heap_eq same by (simp add: sender)
  qed
qed

text \<open>
  C8: when a receiver with an entry in the map is closed, and the senders of its entry
  are live objects, \<open>Close\<close> runs once on each sender of the entry (the loop runs over
  the copy of the set, which has each sender once): each sender emits one \<open>close\<close>
  notification and is deleted, and afterwards the map has no entry for the receiver and
  none of the closed senders in any other entry.
\<close>

theorem onPeerRtpReceiverClosed_closes_senders:
  assumes entry: "mapRtpReceiverRtpSenders room rtpReceiver = Some rtpSenders"
    and finite: "finite rtpSenders"
    and live: "rtpSenders \<subseteq> dom heap"
  shows "\<exists>room' heap'.
           onPeerRtpReceiverClosed room heap rtpReceiver =
             Inr (room', heap',
                  map (\<lambda>a. Notify (rtpSenderId (the (heap a))) ''close'' [(''class'', ''RtpSender'')])
                    (sorted_list_of_set rtpSenders))
           \<and> distinct (sorted_list_of_set rtpSenders)
           \<and> set (sorted_list_of_set rtpSenders) = rtpSenders
           \<and> mapRtpReceiverRtpSenders room' rtpReceiver = None
           \<and> (\<forall>a. heap' a = (if a \<in> rtpSenders then None else heap a))
           \<and> (\<forall>receiver. receiver \<noteq> rtpReceiver \<longrightarrow>
                 mapRtpReceiverRtpSenders room' receiver =
                   map_option (\<lambda>others. others - rtpSenders)
                     (mapRtpReceiverRtpSenders room receiver))"
proof -
  have d: "distinct (sorted_list_of_set rtpSenders)"
    and s: "set (sorted_list_of_set rtpSenders) = rtpSenders"
    using finite by simp_all
  from live s have "set (sorted_list_of_set rtpSenders) \<subseteq> dom heap"
    by simp
  from CloseRtpSenders_result [OF d this, of room "[]"] show ?thesis
    using entry d s by (simp add: onPeerRtpReceiverClosed_def)
qed


theorem onPeerRtpReceiverClosed_closes_senders_witness:
  "mapRtpReceiverRtpSenders exampleRoom 5 = Some {10, 20}
   \<and> (\<exists>room' heap'.
         onPeerRtpReceiverClosed exampleRoom exampleSenders 5 =
           Inr (room', heap',
                [Notify 11111111 ''close'' [(''class'', ''RtpSender'')],
                 Notify 22222222 ''close'' [(''class'', ''RtpSender'')]])
         \<and> mapRtpReceiverRtpSenders room' 5 = None
         \<and> mapRtpReceiverRtpSenders room' 6 = Some {30}
         \<and> heap' 10 = None \<and> heap' 20 = None \<and> heap' 30 = exampleSenders 30)"
proof -
  have entry: "mapRtpReceiverRtpSenders exampleRoom 5 = Some {10, 20}"
    by (simp add: exampleRoom_def)
  have finite: "finite {10, 20 :: nat}"
    by simp
  have live: "{10, 20} \<subseteq> dom exampleSenders"
    by (simp add: exampleSenders_def)
  have order: "sorted_list_of_set {10, 20 :: nat} = [10, 20]"
    by code_simp
  have other: "mapRtpReceiverRtpSenders exampleRoom 6 = Some {30}"
    by (simp add: exampleRoom_def)
  from onPeerRtpReceiverClosed_closes_senders [OF entry finite live]
  obtain room' heap' where
    r: "onPeerRtpReceiverClosed exampleRoom exampleSenders 5 =
          Inr (room', heap',
               map (\<lambda>a. Notify (rtpSenderId (the (exampleSenders a))) ''close''
                          [(''class'', ''RtpSender'')])
                 (sorted_list_of_set {10, 20}))"
    and m: "mapRtpReceiverRtpSenders room' 5 = None"
    and h: "\<forall>a. heap' a = (if a \<in> {10, 20} then None else exampleSenders a)"
    and o: "\<forall>receiver. receiver \<noteq> 5 \<longrightarrow>
              mapRtpReceiverRtpSenders room' receiver =
                map_option (\<lambda>others. others - {10, 20})
                  (mapRtpReceiverRtpSenders exampleRoom receiver)"
    by blast
  have "mapRtpReceiverRtpSenders room' 6 = Some {30}"
    using o other by simp
  moreover have "heap' 10 = None" "heap' 20 = None" "heap' 30 = exampleSenders 30"
    using h by simp_all
  moreover have "map (\<lambda>a. Notify (rtpSenderId (the (exampleSenders a))) ''close''
                          [(''class'', ''RtpSender'')]) [10, 20]
                 = [Notify 11111111 ''close'' [(''class'', ''RtpSender'')],
                    Notify 22222222 ''close'' [(''class'', ''RtpSender'')]]"
    by (simp add: exampleSenders_def)
  ultimately show ?thesis
    using entry r m by (simp add: order)
qed

subsection \<open>Control-plane requests\<close>

text \<open>
  C9: a request whose method the handler of the Consumer, of the RtpSender or of the
  Room does not name is rejected with the reason \<open>unknown method\<close>, and the Consumer, the
  RtpSender or the Room is as before (the Room emits nothing).
\<close>

theorem unknown_method_rejected:
  "(methodId request \<notin> consumerMethods \<longrightarrow>
      ConsumerHandleRequest consumerToJson c request = (c, Reject ''unknown method''))
   \<and> (methodId request \<notin> rtpSenderMethods \<longrightarrow>
        RtpSenderHandleRequest senderToJson sender request
          = (sender, Reject ''unknown method''))
   \<and> (methodId request \<notin> roomMethods \<longrightarrow>
        RoomHandleRequest env room request = (Some room, [], Reject ''unknown method''))"
  by (cases "methodId request")
     (simp_all add: consumerMethods_def rtpSenderMethods_def roomMethods_def
        ConsumerHandleRequest_def RtpSenderHandleRequest_def RoomHandleRequest_def)

theorem unknown_method_rejected_witness:
  "methodId exampleRequest \<notin> consumerMethods \<union> rtpSenderMethods \<union> roomMethods
   \<and> ConsumerHandleRequest (\<lambda>c. ()) exampleConsumer exampleRequest
       = (exampleConsumer, Reject ''unknown method'')
   \<and> RtpSenderHandleRequest (\<lambda>s. ()) (the (exampleSenders 10)) exampleRequest
       = (the (exampleSenders 10), Reject ''unknown method'')
   \<and> RoomHandleRequest exampleCollaborators exampleRoom exampleRequest
       = (Some exampleRoom, [], Reject ''unknown method'')"
proof -
  have unknown: "methodId exampleRequest \<notin> consumerMethods"
    "methodId exampleRequest \<notin> rtpSenderMethods" "methodId exampleRequest \<notin> roomMethods"
    by (simp_all add: exampleRequest_def consumerMethods_def rtpSenderMethods_def
          roomMethods_def)
  show ?thesis
    using unknown_method_rejected [of exampleRequest "\<lambda>c. ()" exampleConsumer "\<lambda>s. ()"
        "the (exampleSenders 10)" exampleCollaborators exampleRoom] unknown
    by simp
qed

end
